theory Spec2Isabelle
  imports Complex_Main "HOL-Library.Word"
begin

unbundle bit_operations_syntax

section \<open>Python values, dictionaries and exceptions\<close>

text \<open>
  An event is a Python dictionary from field names to values. The scrapers fill the
  fields from JSON, and the sheet reader returns numbers for numeric cells, so a field
  can hold \<open>None\<close>, a boolean, an integer or a string. A string is a list of code
  points below 256 (the Latin-1 range); on these \<open>str.lower\<close>, \<open>str.isspace\<close> and
  the regular expression classes \<open>\\s\<close> and \<open>\\w\<close> are the tables written out below.
\<close>

datatype pyval = PNone | PBool bool | PInt int | PStr string

datatype py_error = AttributeError

type_synonym event = "string \<rightharpoonup> pyval"

text \<open>\<open>d.get(k, default)\<close>\<close>

definition dict_get :: "event \<Rightarrow> string \<Rightarrow> pyval \<Rightarrow> pyval" where
  "dict_get d k dflt = (case d k of None \<Rightarrow> dflt | Some v \<Rightarrow> v)"

definition digit_char :: "nat \<Rightarrow> char" where
  "digit_char d = char_of (48 + d)"

fun str_nat :: "nat \<Rightarrow> string" where
  "str_nat n = (if n < 10 then [digit_char n] else str_nat (n div 10) @ [digit_char (n mod 10)])"

declare str_nat.simps [simp del]

definition str_int :: "int \<Rightarrow> string" where
  "str_int i = (if i < 0 then CHR ''-'' # str_nat (nat (- i)) else str_nat (nat i))"

text \<open>\<open>str(v)\<close>\<close>

fun py_str :: "pyval \<Rightarrow> string" where
  "py_str PNone = ''None''"
| "py_str (PBool b) = (if b then ''True'' else ''False'')"
| "py_str (PInt i) = str_int i"
| "py_str (PStr s) = s"

text \<open>The truth value of \<open>v\<close> in a condition (\<open>if v\<close>, \<open>not v\<close>).\<close>

fun truthy :: "pyval \<Rightarrow> bool" where
  "truthy PNone = False"
| "truthy (PBool b) = b"
| "truthy (PInt i) = (i \<noteq> 0)"
| "truthy (PStr s) = (s \<noteq> [])"

section \<open>Character classes and string methods\<close>

definition is_space :: "char \<Rightarrow> bool" where
  "is_space c =
     (let n = (of_char c :: nat)
      in (9 \<le> n \<and> n \<le> 13) \<or> (28 \<le> n \<and> n \<le> 32) \<or> n = 133 \<or> n = 160)"

definition is_word :: "char \<Rightarrow> bool" where
  "is_word c =
     (let n = (of_char c :: nat)
      in n = 95 \<or> (48 \<le> n \<and> n \<le> 57) \<or> (65 \<le> n \<and> n \<le> 90) \<or> (97 \<le> n \<and> n \<le> 122)
         \<or> n = 170 \<or> n = 178 \<or> n = 179 \<or> n = 181 \<or> n = 185 \<or> n = 186
         \<or> (188 \<le> n \<and> n \<le> 190) \<or> (192 \<le> n \<and> n \<le> 214) \<or> (216 \<le> n \<and> n \<le> 246)
         \<or> (248 \<le> n \<and> n \<le> 255))"


definition lower_char :: "char \<Rightarrow> char" where
  "lower_char c =
     (let n = (of_char c :: nat)
      in if (65 \<le> n \<and> n \<le> 90) \<or> (192 \<le> n \<and> n \<le> 222 \<and> n \<noteq> 215) then char_of (n + 32) else c)"

definition py_lower :: "string \<Rightarrow> string" where
  "py_lower s = map lower_char s"

definition py_strip :: "string \<Rightarrow> string" where
  "py_strip s = rev (dropWhile is_space (rev (dropWhile is_space s)))"

text \<open>\<open>re.sub(r'\\s+', ' ', text)\<close>: every maximal run of whitespace becomes one space.
  The flag says whether the previous character was whitespace.\<close>

fun sub_ws_runs :: "bool \<Rightarrow> string \<Rightarrow> string" where
  "sub_ws_runs in_run [] = []"
| "sub_ws_runs in_run (c # cs) =
     (if is_space c then (if in_run then sub_ws_runs True cs else CHR '' '' # sub_ws_runs True cs)
      else c # sub_ws_runs False cs)"

text \<open>\<open>re.sub(r'[^\\w\\s]', '', text)\<close>\<close>

definition sub_special :: "string \<Rightarrow> string" where
  "sub_special s = filter (\<lambda>c. is_word c \<or> is_space c) s"

section \<open>deduplication.py: the normalizers\<close>

definition normalize_str :: "string \<Rightarrow> string" where
  "normalize_str text = sub_special (sub_ws_runs False (py_strip (py_lower text)))"

text \<open>\<open>normalize_text\<close> calls \<open>text.lower()\<close> first: a value that is not a string has no
  such method and the call raises AttributeError.\<close>

fun normalize_text :: "pyval \<Rightarrow> py_error + string" where
  "normalize_text (PStr s) = Inr (normalize_str s)"
| "normalize_text _ = Inl AttributeError"

definition normalize_date :: "pyval \<Rightarrow> string" where
  "normalize_date date_str = (if \<not> truthy date_str then [] else take 10 (py_strip (py_str date_str)))"

section \<open>hashlib: SHA-256 of the UTF-8 encoding\<close>

type_synonym byte = "8 word"
type_synonym w32 = "32 word"

definition utf8_char :: "char \<Rightarrow> byte list" where
  "utf8_char c =
     (let n = (of_char c :: nat)
      in if n < 128 then [of_nat n] else [of_nat (192 + n div 64), of_nat (128 + n mod 64)])"

definition encode_utf8 :: "string \<Rightarrow> byte list" where
  "encode_utf8 s = concat (map utf8_char s)"

definition rotr :: "nat \<Rightarrow> w32 \<Rightarrow> w32" where
  "rotr n x = (drop_bit n x) OR (push_bit (32 - n) x)"

definition ch :: "w32 \<Rightarrow> w32 \<Rightarrow> w32 \<Rightarrow> w32" where
  "ch x y z = (x AND y) XOR (NOT x AND z)"

definition maj :: "w32 \<Rightarrow> w32 \<Rightarrow> w32 \<Rightarrow> w32" where
  "maj x y z = (x AND y) XOR (x AND z) XOR (y AND z)"

definition big_sigma0 :: "w32 \<Rightarrow> w32" where
  "big_sigma0 x = rotr 2 x XOR rotr 13 x XOR rotr 22 x"

definition big_sigma1 :: "w32 \<Rightarrow> w32" where
  "big_sigma1 x = rotr 6 x XOR rotr 11 x XOR rotr 25 x"

definition small_sigma0 :: "w32 \<Rightarrow> w32" where
  "small_sigma0 x = rotr 7 x XOR rotr 18 x XOR drop_bit 3 x"

definition small_sigma1 :: "w32 \<Rightarrow> w32" where
  "small_sigma1 x = rotr 17 x XOR rotr 19 x XOR drop_bit 10 x"

text \<open>The round constants and the initial hash value of SHA-256 (FIPS 180-4), in decimal.\<close>

definition sha256_k :: "w32 list" where
  "sha256_k =
    [
     1116352408, 1899447441, 3049323471, 3921009573, 961987163, 1508970993,
     2453635748, 2870763221, 3624381080, 310598401, 607225278, 1426881987,
     1925078388, 2162078206, 2614888103, 3248222580, 3835390401, 4022224774,
     264347078, 604807628, 770255983, 1249150122, 1555081692, 1996064986,
     2554220882, 2821834349, 2952996808, 3210313671, 3336571891, 3584528711,
     113926993, 338241895, 666307205, 773529912, 1294757372, 1396182291,
     1695183700, 1986661051, 2177026350, 2456956037, 2730485921, 2820302411,
     3259730800, 3345764771, 3516065817, 3600352804, 4094571909, 275423344,
     430227734, 506948616, 659060556, 883997877, 958139571, 1322822218,
     1537002063, 1747873779, 1955562222, 2024104815, 2227730452, 2361852424,
     2428436474, 2756734187, 3204031479, 3329325298]"

definition sha256_h0 :: "w32 list" where
  "sha256_h0 =
    [
     1779033703, 3144134277, 1013904242, 2773480762,
     1359893119, 2600822924, 528734635, 1541459225]"

definition pad_message :: "byte list \<Rightarrow> byte list" where
  "pad_message m =
     (let l = length m;
          k = (64 - (l + 9) mod 64) mod 64;
          bits = (of_nat (8 * l) :: 64 word)
      in m @ [0x80] @ replicate k 0 @ map (\<lambda>i. ucast (drop_bit (8 * (7 - i)) bits)) [0..<8])"

fun be_words :: "byte list \<Rightarrow> w32 list" where
  "be_words (a # b # c # d # rest) =
     (push_bit 24 (ucast a) OR push_bit 16 (ucast b) OR push_bit 8 (ucast c) OR ucast d) # be_words rest"
| "be_words _ = []"

fun blocks :: "w32 list \<Rightarrow> w32 list list" where
  "blocks [] = []"
| "blocks ws = take 16 ws # blocks (drop 16 ws)"

fun schedule :: "nat \<Rightarrow> w32 list \<Rightarrow> w32 list" where
  "schedule 0 ws = ws"
| "schedule (Suc n) ws =
     (let t = length ws
      in schedule n (ws @ [small_sigma1 (ws ! (t - 2)) + ws ! (t - 7)
                           + small_sigma0 (ws ! (t - 15)) + ws ! (t - 16)]))"

fun round_step :: "w32 list \<Rightarrow> w32 \<times> w32 \<Rightarrow> w32 list" where
  "round_step [a, b, c, d, e, f, g, h] (k, w) =
     (let t1 = h + big_sigma1 e + ch e f g + k + w;
          t2 = big_sigma0 a + maj a b c
      in [t1 + t2, a, b, c, d + t1, e, f, g])"
| "round_step st _ = st"

definition compress :: "w32 list \<Rightarrow> w32 list \<Rightarrow> w32 list" where
  "compress hs block = map2 (+) hs (foldl round_step hs (zip sha256_k (schedule 48 block)))"

definition hex_digit :: "nat \<Rightarrow> char" where
  "hex_digit n = (if n < 10 then char_of (48 + n) else char_of (87 + n))"

definition hex_word :: "w32 \<Rightarrow> string" where
  "hex_word w = map (\<lambda>i. hex_digit (unat (drop_bit (4 * (7 - i)) w AND 0xF))) [0..<8]"

definition sha256_hexdigest :: "byte list \<Rightarrow> string" where
  "sha256_hexdigest m =
     concat (map hex_word (foldl compress sha256_h0 (blocks (be_words (pad_message m)))))"

section \<open>deduplication.py: the fingerprint\<close>

text \<open>The list given to \<open>join\<close> is built left to right, so the title is normalized
  before the city; \<open>normalize_date\<close> cannot raise.\<close>

definition compute_content_hash :: "pyval \<Rightarrow> pyval \<Rightarrow> pyval \<Rightarrow> py_error + string" where
  "compute_content_hash title start_date city =
     (case normalize_text title of
        Inl e \<Rightarrow> Inl e
      | Inr t \<Rightarrow>
          (case normalize_text city of
             Inl e \<Rightarrow> Inl e
           | Inr c \<Rightarrow>
               (let fingerprint = t @ ''|'' @ normalize_date start_date @ ''|'' @ c
                in Inr (sha256_hexdigest (encode_utf8 fingerprint)))))"

section \<open>The libraries outside the repository\<close>

text \<open>
  \<open>rapidfuzz.fuzz.token_sort_ratio\<close> returns a double between 0 and 100, and the
  f-string renders that double with \<open>str\<close>. Neither belongs to the repository, so the
  engine takes both as parameters: the score as the rational number the double stands for
  (the comparison of a double with an integer threshold is exact in Python), and the
  rendering as a function from scores to strings.
\<close>

record pylib =
  token_sort_ratio :: "string \<Rightarrow> string \<Rightarrow> rat"
  str_float :: "rat \<Rightarrow> string"

section \<open>deduplication.py: the three layers\<close>

text \<open>The loop \<open>for existing in existing_events\<close> of layer 3. A stored city or title
  that is not a string raises inside the loop.\<close>

fun fuzzy_scan ::
  "pylib \<Rightarrow> string \<Rightarrow> string \<Rightarrow> string \<Rightarrow> int \<Rightarrow> event list \<Rightarrow> py_error + (bool \<times> string)" where
  "fuzzy_scan L new_title_norm new_date_norm new_city_norm fuzzy_threshold [] = Inr (False, [])"
| "fuzzy_scan L new_title_norm new_date_norm new_city_norm fuzzy_threshold (existing # rest) =
     (let same_date = (normalize_date (dict_get existing ''start_date'' (PStr [])) = new_date_norm)
      in case normalize_text (dict_get existing ''city'' (PStr [])) of
           Inl e \<Rightarrow> Inl e
         | Inr existing_city_norm \<Rightarrow>
             (let same_city = (existing_city_norm = new_city_norm)
              in if same_date \<and> same_city \<and> new_date_norm \<noteq> [] then
                   (case normalize_text (dict_get existing ''title'' (PStr [])) of
                      Inl e \<Rightarrow> Inl e
                    | Inr existing_title_norm \<Rightarrow>
                        (let similarity = token_sort_ratio L new_title_norm existing_title_norm
                         in if of_int fuzzy_threshold \<le> similarity
                            then Inr (True, ''fuzzy_match_'' @ str_float L similarity @ ''pct'')
                            else fuzzy_scan L new_title_norm new_date_norm new_city_norm
                                   fuzzy_threshold rest))
                 else fuzzy_scan L new_title_norm new_date_norm new_city_norm fuzzy_threshold rest))"

definition is_duplicate ::
  "pylib \<Rightarrow> event \<Rightarrow> string set \<Rightarrow> string set \<Rightarrow> event list \<Rightarrow> int \<Rightarrow> py_error + (bool \<times> string)" where
  "is_duplicate L event existing_source_ids existing_hashes existing_events fuzzy_threshold =
     (let source_id = py_strip (py_str (dict_get event ''source_id'' (PStr [])))
      in if source_id \<noteq> [] \<and> source_id \<in> existing_source_ids then Inr (True, ''exact_source_id'')
         else
           (case compute_content_hash (dict_get event ''title'' (PStr []))
                   (dict_get event ''start_date'' (PStr [])) (dict_get event ''city'' (PStr [])) of
              Inl e \<Rightarrow> Inl e
            | Inr content_hash \<Rightarrow>
                if content_hash \<in> existing_hashes then Inr (True, ''content_hash'')
                else
                  (case normalize_text (dict_get event ''title'' (PStr [])) of
                     Inl e \<Rightarrow> Inl e
                   | Inr new_title_norm \<Rightarrow>
                       (let new_date_norm = normalize_date (dict_get event ''start_date'' (PStr []))
                        in case normalize_text (dict_get event ''city'' (PStr [])) of
                             Inl e \<Rightarrow> Inl e
                           | Inr new_city_norm \<Rightarrow>
                               fuzzy_scan L new_title_norm new_date_norm new_city_norm
                                 fuzzy_threshold existing_events))))"

section \<open>sheets.py and prepare_event_row\<close>

definition EVENTS_HEADERS :: "string list" where
  "EVENTS_HEADERS =
     [''content_hash'', ''title'', ''start_date'', ''end_date'', ''city'',
      ''country'', ''platform'', ''source_id'', ''url'', ''category'',
      ''price'', ''is_free'', ''organizer'', ''description'',
      ''attendee_count'', ''image_url'', ''scraped_at'', ''is_active'']"

text \<open>\<open>now\<close> is the text of \<open>datetime.now().isoformat()\<close> read while the row is built.\<close>

definition prepare_event_row :: "string \<Rightarrow> event \<Rightarrow> py_error + pyval list" where
  "prepare_event_row now event =
     (case compute_content_hash (dict_get event ''title'' (PStr []))
             (dict_get event ''start_date'' (PStr [])) (dict_get event ''city'' (PStr [])) of
        Inl e \<Rightarrow> Inl e
      | Inr content_hash \<Rightarrow>
          (let event_data = map_of
                 [(''content_hash'', PStr content_hash),
                  (''title'', dict_get event ''title'' (PStr [])),
                  (''start_date'', dict_get event ''start_date'' (PStr [])),
                  (''end_date'', dict_get event ''end_date'' (PStr [])),
                  (''city'', dict_get event ''city'' (PStr [])),
                  (''country'', dict_get event ''country'' (PStr ''India'')),
                  (''platform'', dict_get event ''platform'' (PStr [])),
                  (''source_id'', PStr (py_str (dict_get event ''source_id'' (PStr [])))),
                  (''url'', dict_get event ''url'' (PStr [])),
                  (''category'', dict_get event ''category'' (PStr [])),
                  (''price'', dict_get event ''price'' (PStr ''Free'')),
                  (''is_free'',
                     PStr (if truthy (dict_get event ''is_free'' (PBool True)) then ''TRUE'' else ''FALSE'')),
                  (''organizer'', dict_get event ''organizer'' (PStr [])),
                  (''description'', PStr (take 500 (py_str (dict_get event ''description'' (PStr []))))),
                  (''attendee_count'', dict_get event ''attendee_count'' (PStr [])),
                  (''image_url'', dict_get event ''image_url'' (PStr [])),
                  (''scraped_at'', PStr now),
                  (''is_active'', PStr ''TRUE'')]
           in Inr (map (\<lambda>h. dict_get event_data h (PStr [])) EVENTS_HEADERS)))"

text \<open>The match index: the two identity sets and the ordered list of stored tuples.\<close>

record match_index =
  source_ids :: "string set"
  content_hashes :: "string set"
  events_list :: "event list"

record existing_events = match_index +
  total :: nat

text \<open>\<open>load_existing_events\<close>, as a function of the records read from the sheet.\<close>

definition load_row :: "existing_events \<Rightarrow> event \<Rightarrow> existing_events" where
  "load_row acc row =
     acc\<lparr>source_ids :=
           (if truthy (dict_get row ''source_id'' PNone)
            then insert (py_str (dict_get row ''source_id'' PNone)) (source_ids acc)
            else source_ids acc),
         content_hashes :=
           (if truthy (dict_get row ''content_hash'' PNone)
            then insert (py_str (dict_get row ''content_hash'' PNone)) (content_hashes acc)
            else content_hashes acc),
         events_list := events_list acc @
           [[''title'' \<mapsto> dict_get row ''title'' (PStr []),
             ''start_date'' \<mapsto> PStr (py_str (dict_get row ''start_date'' (PStr []))),
             ''city'' \<mapsto> dict_get row ''city'' (PStr [])]]\<rparr>"

definition load_existing_events :: "event list \<Rightarrow> existing_events" where
  "load_existing_events records =
     (foldl load_row
        \<lparr>source_ids = {}, content_hashes = {}, events_list = [], total = 0\<rparr> records)
       \<lparr>total := length records\<rparr>"

section \<open>pipeline.py: deduplicate and store\<close>

record counters =
  new :: nat
  dup_exact :: nat
  dup_hash :: nat
  dup_fuzzy :: nat
  errors :: nat

record run_state = match_index +
  new_rows :: "pyval list list"
  stats :: counters

text \<open>\<open>sub in s\<close> on strings.\<close>

fun py_in :: "string \<Rightarrow> string \<Rightarrow> bool" where
  "py_in sub [] = (sub = [])"
| "py_in sub (c # cs) = (take (length sub) (c # cs) = sub \<or> py_in sub cs)"

text \<open>
  The body of the loop over \<open>all_events\<close>. An exception anywhere in the \<open>try\<close> block
  is caught: the handler adds one to \<open>errors\<close> and the loop goes on, and what the
  block had changed before the exception stays changed.
\<close>

definition process_event :: "pylib \<Rightarrow> string \<Rightarrow> run_state \<Rightarrow> event \<Rightarrow> run_state" where
  "process_event L now st event =
     (case is_duplicate L event (source_ids st) (content_hashes st) (events_list st) 85 of
        Inl e \<Rightarrow> st\<lparr>stats := (stats st)\<lparr>errors := errors (stats st) + 1\<rparr>\<rparr>
      | Inr (dup, reason) \<Rightarrow>
          if dup then
            (if py_in ''source_id'' reason
               then st\<lparr>stats := (stats st)\<lparr>dup_exact := dup_exact (stats st) + 1\<rparr>\<rparr>
             else if py_in ''hash'' reason
               then st\<lparr>stats := (stats st)\<lparr>dup_hash := dup_hash (stats st) + 1\<rparr>\<rparr>
             else st\<lparr>stats := (stats st)\<lparr>dup_fuzzy := dup_fuzzy (stats st) + 1\<rparr>\<rparr>)
          else
            (case prepare_event_row now event of
               Inl e \<Rightarrow> st\<lparr>stats := (stats st)\<lparr>errors := errors (stats st) + 1\<rparr>\<rparr>
             | Inr row \<Rightarrow>
                 (let st1 = st\<lparr>new_rows := new_rows st @ [row]\<rparr>
                  in case compute_content_hash (dict_get event ''title'' (PStr []))
                            (dict_get event ''start_date'' (PStr [])) (dict_get event ''city'' (PStr [])) of
                       Inl e \<Rightarrow> st1\<lparr>stats := (stats st1)\<lparr>errors := errors (stats st1) + 1\<rparr>\<rparr>
                     | Inr content_hash \<Rightarrow>
                         st1\<lparr>source_ids :=
                               insert (py_str (dict_get event ''source_id'' (PStr []))) (source_ids st1),
                             content_hashes := insert content_hash (content_hashes st1),
                             events_list := events_list st1 @
                               [[''title'' \<mapsto> dict_get event ''title'' (PStr []),
                                 ''start_date'' \<mapsto> dict_get event ''start_date'' (PStr []),
                                 ''city'' \<mapsto> dict_get event ''city'' (PStr [])]],
                             stats := (stats st1)\<lparr>new := new (stats st1) + 1\<rparr>\<rparr>)))"

text \<open>The loop: \<open>clock i\<close> is the time read while the \<open>i\<close>-th remaining candidate is
  processed.\<close>

fun process_all :: "pylib \<Rightarrow> (nat \<Rightarrow> string) \<Rightarrow> run_state \<Rightarrow> event list \<Rightarrow> run_state" where
  "process_all L clock st [] = st"
| "process_all L clock st (event # rest) =
     process_all L (\<lambda>i. clock (Suc i)) (process_event L (clock 0) st event) rest"

definition initial_state :: "existing_events \<Rightarrow> run_state" where
  "initial_state existing =
     \<lparr>source_ids = source_ids existing, content_hashes = content_hashes existing,
      events_list = events_list existing, new_rows = [],
      stats = \<lparr>new = 0, dup_exact = 0, dup_hash = 0, dup_fuzzy = 0, errors = 0\<rparr>\<rparr>"

text \<open>
  What a run leaves behind: the rows given to \<open>batch_append_events\<close> (\<open>None\<close> when the
  call is skipped because there is no new row), the counters, and the total. The
  duplicate rate, a rounded double for the summary, is left out.
\<close>

record run_result =
  appended :: "pyval list list option"
  result_stats :: counters
  result_total :: nat

definition deduplicate_and_store ::
  "pylib \<Rightarrow> (nat \<Rightarrow> string) \<Rightarrow> existing_events \<Rightarrow> event list \<Rightarrow> run_result" where
  "deduplicate_and_store L clock existing all_events =
     (let st = process_all L clock (initial_state existing) all_events
      in \<lparr>appended = (if new_rows st \<noteq> [] then Some (new_rows st) else None),
          result_stats = stats st,
          result_total = total existing + new (stats st)\<rparr>)"

section \<open>A reference instance of the library parameters\<close>

text \<open>
  \<open>token_sort_ratio\<close> as rapidfuzz documents it: split both strings at whitespace, sort
  the tokens, join them with one space, and take the normalized Indel similarity times
  100, that is \<open>(1 - (|a| + |b| - 2 lcs) / (|a| + |b|)) * 100\<close>, and 100 for two empty
  strings; here in exact arithmetic.
\<close>

fun split_acc :: "string \<Rightarrow> string \<Rightarrow> string list" where
  "split_acc tok [] = (if tok = [] then [] else [tok])"
| "split_acc tok (c # cs) =
     (if is_space c then (if tok = [] then split_acc [] cs else tok # split_acc [] cs)
      else split_acc (tok @ [c]) cs)"

definition py_split :: "string \<Rightarrow> string list" where
  "py_split s = split_acc [] s"

fun str_le :: "string \<Rightarrow> string \<Rightarrow> bool" where
  "str_le [] ys = True"
| "str_le (x # xs) [] = False"
| "str_le (x # xs) (y # ys) = ((of_char x :: nat) < of_char y \<or> (x = y \<and> str_le xs ys))"

fun insert_token :: "string \<Rightarrow> string list \<Rightarrow> string list" where
  "insert_token t [] = [t]"
| "insert_token t (u # us) = (if str_le t u then t # u # us else u # insert_token t us)"

definition py_sorted :: "string list \<Rightarrow> string list" where
  "py_sorted ts = foldr insert_token ts []"

fun join_space :: "string list \<Rightarrow> string" where
  "join_space [] = []"
| "join_space [t] = t"
| "join_space (t # ts) = t @ '' '' @ join_space ts"

text \<open>One row of the longest-common-subsequence table: \<open>prev\<close> is the row above from
  the current column on, \<open>left\<close> the entry just written.\<close>

fun lcs_row :: "char \<Rightarrow> string \<Rightarrow> nat list \<Rightarrow> nat \<Rightarrow> nat list" where
  "lcs_row x (y # ys) (d # u # prev) left =
     (let v = (if x = y then d + 1 else max u left) in v # lcs_row x ys (u # prev) v)"
| "lcs_row x _ _ left = []"

definition lcs_length :: "string \<Rightarrow> string \<Rightarrow> nat" where
  "lcs_length xs ys = last (foldl (\<lambda>row x. 0 # lcs_row x ys row 0) (replicate (length ys + 1) 0) xs)"

definition indel_ratio :: "string \<Rightarrow> string \<Rightarrow> rat" where
  "indel_ratio a b =
     (let maximum = length a + length b;
          dist = maximum - 2 * lcs_length a b;
          norm_dist = (if maximum = 0 then 0 else of_nat dist / of_nat maximum)
      in (1 - norm_dist) * 100)"

definition ref_token_sort_ratio :: "string \<Rightarrow> string \<Rightarrow> rat" where
  "ref_token_sort_ratio s1 s2 =
     indel_ratio (join_space (py_sorted (py_split s1))) (join_space (py_sorted (py_split s2)))"

text \<open>A score rendered with one decimal place. For a whole score this is what Python
  prints for the double (\<open>90.0\<close>); the concrete runs below have whole scores only.\<close>

definition ref_str_float :: "rat \<Rightarrow> string" where
  "ref_str_float q =
     (let n = \<lfloor>q\<rfloor> in str_int n @ ''.'' @ str_nat (nat \<lfloor>(q - of_int n) * 10\<rfloor>))"

definition ref_lib :: pylib where
  "ref_lib = \<lparr>token_sort_ratio = ref_token_sort_ratio, str_float = ref_str_float\<rparr>"

section \<open>Vocabulary of the properties\<close>


fun is_text :: "pyval \<Rightarrow> bool" where
  "is_text (PStr s) = True"
| "is_text _ = False"

text \<open>The title and the city of a dictionary are strings, or absent.\<close>

definition text_fields :: "event \<Rightarrow> bool" where
  "text_fields e =
     (is_text (dict_get e ''title'' (PStr [])) \<and> is_text (dict_get e ''city'' (PStr [])))"

text \<open>The condition \<open>same_date and same_city and new_date_norm\<close> of the fuzzy loop, for
  a stored record against the candidate's normalized date and city.\<close>

definition gated :: "string \<Rightarrow> string \<Rightarrow> event \<Rightarrow> bool" where
  "gated new_date_norm new_city_norm existing =
     (normalize_date (dict_get existing ''start_date'' (PStr [])) = new_date_norm
      \<and> normalize_text (dict_get existing ''city'' (PStr [])) = Inr new_city_norm
      \<and> new_date_norm \<noteq> [])"

text \<open>The trimmed source id that layer 1 looks up.\<close>

definition lookup_id :: "event \<Rightarrow> string" where
  "lookup_id e = py_strip (py_str (dict_get e ''source_id'' (PStr [])))"

text \<open>The candidate of the scenarios: one event, listed under the source id \<open>sid\<close>.\<close>

definition ai_summit :: "string \<Rightarrow> event" where
  "ai_summit sid =
     [''title'' \<mapsto> PStr ''AI Summit 2025'', ''start_date'' \<mapsto> PStr ''2025-06-01'',
      ''city'' \<mapsto> PStr ''Pune'', ''source_id'' \<mapsto> PStr sid]"

text \<open>A record the loop passes over: it does not raise and it does not match.\<close>

definition passed_over :: "pylib \<Rightarrow> string \<Rightarrow> string \<Rightarrow> string \<Rightarrow> int \<Rightarrow> event \<Rightarrow> bool" where
  "passed_over L t d c T ex =
     (case normalize_text (dict_get ex ''city'' (PStr [])) of
        Inl e \<Rightarrow> False
      | Inr c' \<Rightarrow>
          if gated d c ex then
            (case normalize_text (dict_get ex ''title'' (PStr [])) of
               Inl e \<Rightarrow> False
             | Inr et \<Rightarrow> token_sort_ratio L t et < of_int T)
          else True)"

text \<open>Layers 1 and 2 do not match, and the candidate's normal forms are \<open>t\<close>, \<open>d\<close>
  and \<open>c\<close>: the candidate reaches the fuzzy layer with them.\<close>

definition reaches_fuzzy_layer ::
  "event \<Rightarrow> string set \<Rightarrow> string set \<Rightarrow> string \<Rightarrow> string \<Rightarrow> string \<Rightarrow> bool" where
  "reaches_fuzzy_layer event ids hashes t d c =
     (\<not> (lookup_id event \<noteq> [] \<and> lookup_id event \<in> ids)
      \<and> normalize_text (dict_get event ''title'' (PStr [])) = Inr t
      \<and> normalize_date (dict_get event ''start_date'' (PStr [])) = d
      \<and> normalize_text (dict_get event ''city'' (PStr [])) = Inr c
      \<and> sha256_hexdigest (encode_utf8 (t @ ''|'' @ d @ ''|'' @ c)) \<notin> hashes)"

text \<open>Candidates and stored tuples on one date, with no source id.\<close>

definition jazz :: "string \<Rightarrow> string \<Rightarrow> event" where
  "jazz title city =
     [''title'' \<mapsto> PStr title, ''start_date'' \<mapsto> PStr ''2025-03-01'', ''city'' \<mapsto> PStr city]"

text \<open>The number of candidates the five tallies account for.\<close>

definition counted :: "counters \<Rightarrow> nat" where
  "counted c = new c + dup_exact c + dup_hash c + dup_fuzzy c + errors c"

text \<open>What \<open>load_existing_events\<close> returns for an empty sheet.\<close>

definition empty_index :: existing_events where
  "empty_index = \<lparr>source_ids = {}, content_hashes = {}, events_list = [], total = 0\<rparr>"


text \<open>A clock that reads the same time for every candidate.\<close>

definition fixed_clock :: "nat \<Rightarrow> string" where
  "fixed_clock i = ''2025-06-01T09:00:00''"

text \<open>The same event as listed by a third platform, in lower case with a double space.\<close>

definition ai_summit_allevents :: event where
  "ai_summit_allevents =
     [''title'' \<mapsto> PStr ''ai summit  2025'', ''start_date'' \<mapsto> PStr ''2025-06-01'',
      ''city'' \<mapsto> PStr ''pune'', ''source_id'' \<mapsto> PStr ''ae_3'']"

section \<open>The normalizer\<close>





















text \<open>
  Special characters are removed after the whitespace was trimmed and collapsed, so the
  spaces around a removed character stay.
\<close>

lemma normalize_text_keeps_spaces_around_removed:
  "normalize_text (PStr ''- Rock - Show'') = Inr '' rock  show''"
  by code_simp

section \<open>The fingerprint\<close>

lemma compute_content_hash_text:
  "compute_content_hash (PStr t) d (PStr c) =
     Inr (sha256_hexdigest (encode_utf8 (normalize_str t @ ''|'' @ normalize_date d @ ''|'' @ normalize_str c)))"
  by (simp add: compute_content_hash_def)

lemma compute_content_hash_cong:
  assumes "normalize_text t1 = normalize_text t2" and "normalize_date d1 = normalize_date d2"
    and "normalize_text c1 = normalize_text c2"
  shows "compute_content_hash t1 d1 c1 = compute_content_hash t2 d2 c2"
  by (simp only: compute_content_hash_def assms)

text \<open>The digest of \<open>abc\<close>, as FIPS 180-4 and \<open>hashlib\<close> give it.\<close>

lemma sha256_abc:
  "sha256_hexdigest (encode_utf8 ''abc'') =
     ''ba7816bf8f01cfea414140de5dae2223b00361a396177a9cb410ff61f20015ad''"
  by code_simp

lemma jazz_night_normal_forms:
  "normalize_str ''Jazz  Night'' = ''jazz night''" "normalize_str ''jazz night'' = ''jazz night''"
  "normalize_str ''Mumbai'' = ''mumbai''" "normalize_str ''MUMBAI'' = ''mumbai''"
  "normalize_date (PStr ''2025-03-01T18:00'') = ''2025-03-01''"
  "normalize_date (PStr ''2025-03-01'') = ''2025-03-01''"
  by code_simp+

lemma ai_summit_normal_forms:
  "normalize_str ''AI Summit 2025'' = ''ai summit 2025''"
  "normalize_str ''ai summit  2025'' = ''ai summit 2025''"
  "normalize_str ''Pune'' = ''pune''" "normalize_str ''pune'' = ''pune''"
  "normalize_date (PStr ''2025-06-01'') = ''2025-06-01''"
  by code_simp+

text \<open>
  Claim C3. \<open>compute_content_hash\<close> is a function of its three arguments, and of
  their normal forms only: two triples whose titles, dates and cities normalize to the
  same values have the same fingerprint. In particular the fingerprint of
  ("Jazz  Night", "2025-03-01T18:00", "Mumbai") is that of
  ("jazz night", "2025-03-01", "MUMBAI"), the SHA-256 hex digest of
  \<open>jazz night|2025-03-01|mumbai\<close>.
\<close>

theorem fingerprint_normalization_invariant:
  "(normalize_text t1 = normalize_text t2 \<and> normalize_date d1 = normalize_date d2
      \<and> normalize_text c1 = normalize_text c2
    \<longrightarrow> compute_content_hash t1 d1 c1 = compute_content_hash t2 d2 c2)
   \<and> compute_content_hash (PStr ''Jazz  Night'') (PStr ''2025-03-01T18:00'') (PStr ''Mumbai'')
       = compute_content_hash (PStr ''jazz night'') (PStr ''2025-03-01'') (PStr ''MUMBAI'')
   \<and> compute_content_hash (PStr ''jazz night'') (PStr ''2025-03-01'') (PStr ''MUMBAI'')
       = Inr (sha256_hexdigest (encode_utf8 ''jazz night|2025-03-01|mumbai''))"
  using compute_content_hash_cong [of t1 t2 d1 d2 c1 c2]
  by (simp add: compute_content_hash_text jazz_night_normal_forms)

theorem fingerprint_normalization_invariant_witness:
  "normalize_text (PStr ''AI Summit 2025'') = normalize_text (PStr ''ai summit  2025'')
   \<and> normalize_date (PStr ''2025-06-01'') = normalize_date (PStr ''2025-06-01'')
   \<and> normalize_text (PStr ''Pune'') = normalize_text (PStr ''pune'')
   \<and> compute_content_hash (PStr ''AI Summit 2025'') (PStr ''2025-06-01'') (PStr ''Pune'')
       = compute_content_hash (PStr ''ai summit  2025'') (PStr ''2025-06-01'') (PStr ''pune'')"
proof -
  have h1: "normalize_text (PStr ''AI Summit 2025'') = normalize_text (PStr ''ai summit  2025'')"
    by (simp add: ai_summit_normal_forms)
  have h2: "normalize_text (PStr ''Pune'') = normalize_text (PStr ''pune'')"
    by (simp add: ai_summit_normal_forms)
  show ?thesis
    using fingerprint_normalization_invariant
      [of "PStr ''AI Summit 2025''" "PStr ''ai summit  2025''" "PStr ''2025-06-01''"
          "PStr ''2025-06-01''" "PStr ''Pune''" "PStr ''pune''"] h1 h2
    by blast
qed

section \<open>Layer priority\<close>

lemma ai_summit_fields:
  "dict_get (ai_summit sid) ''title'' d = PStr ''AI Summit 2025''"
  "dict_get (ai_summit sid) ''start_date'' d = PStr ''2025-06-01''"
  "dict_get (ai_summit sid) ''city'' d = PStr ''Pune''"
  "dict_get (ai_summit sid) ''source_id'' d = PStr sid"
  by (simp_all add: ai_summit_def dict_get_def)

lemma ai_summit_hash:
  "compute_content_hash (PStr ''AI Summit 2025'') (PStr ''2025-06-01'') (PStr ''Pune'')
     = Inr (sha256_hexdigest (encode_utf8 ''ai summit 2025|2025-06-01|pune''))"
  by (simp add: compute_content_hash_text ai_summit_normal_forms)

text \<open>
  Claim C2. A candidate whose trimmed source id is not empty and is in the index's
  source-id set is a duplicate with reason \<open>exact_source_id\<close>, whatever the hash set
  and the stored tuples hold: layer 1 returns before the other layers are looked at.
\<close>

theorem exact_source_id_first:
  "lookup_id event \<noteq> [] \<Longrightarrow> lookup_id event \<in> existing_source_ids \<Longrightarrow>
   is_duplicate L event existing_source_ids existing_hashes existing_events fuzzy_threshold
     = Inr (True, ''exact_source_id'')"
  by (simp add: is_duplicate_def lookup_id_def)

theorem exact_source_id_first_witness:
  "lookup_id (ai_summit '' eb_1 '') \<noteq> []
   \<and> lookup_id (ai_summit '' eb_1 '') \<in> {''eb_1''}
   \<and> compute_content_hash (dict_get (ai_summit '' eb_1 '') ''title'' (PStr []))
        (dict_get (ai_summit '' eb_1 '') ''start_date'' (PStr []))
        (dict_get (ai_summit '' eb_1 '') ''city'' (PStr []))
       = Inr (sha256_hexdigest (encode_utf8 ''ai summit 2025|2025-06-01|pune''))
   \<and> is_duplicate ref_lib (ai_summit '' eb_1 '') {''eb_1''}
        {sha256_hexdigest (encode_utf8 ''ai summit 2025|2025-06-01|pune'')}
        [ai_summit ''mu_7''] 85
       = Inr (True, ''exact_source_id'')"
proof -
  have id: "lookup_id (ai_summit '' eb_1 '') = ''eb_1''"
    unfolding lookup_id_def ai_summit_fields by code_simp
  show ?thesis
    using exact_source_id_first [of "ai_summit '' eb_1 ''" "{''eb_1''}" ref_lib
        "{sha256_hexdigest (encode_utf8 ''ai summit 2025|2025-06-01|pune'')}" "[ai_summit ''mu_7'']" 85]
    by (simp add: id ai_summit_fields ai_summit_hash)
qed

section \<open>The fuzzy layer\<close>

lemma normalize_text_is_text: "is_text v \<Longrightarrow> normalize_text v = Inr (normalize_str (py_str v))"
  by (cases v) simp_all

lemma normalize_text_Inr: "normalize_text v = Inr s \<Longrightarrow> is_text v"
  by (cases v) simp_all

lemma fuzzy_scan_not_gated:
  "normalize_text (dict_get ex ''city'' (PStr [])) = Inr c' \<Longrightarrow> \<not> gated d c ex \<Longrightarrow>
   fuzzy_scan L t d c T (ex # rest) = fuzzy_scan L t d c T rest"
  by (auto simp: gated_def)

lemma fuzzy_scan_below:
  "gated d c ex \<Longrightarrow> normalize_text (dict_get ex ''title'' (PStr [])) = Inr et \<Longrightarrow>
   token_sort_ratio L t et < of_int T \<Longrightarrow>
   fuzzy_scan L t d c T (ex # rest) = fuzzy_scan L t d c T rest"
  by (auto simp: gated_def)

lemma fuzzy_scan_hit:
  "gated d c ex \<Longrightarrow> normalize_text (dict_get ex ''title'' (PStr [])) = Inr et \<Longrightarrow>
   of_int T \<le> token_sort_ratio L t et \<Longrightarrow>
   fuzzy_scan L t d c T (ex # rest)
     = Inr (True, ''fuzzy_match_'' @ str_float L (token_sort_ratio L t et) @ ''pct'')"
  by (auto simp: gated_def)

lemma fuzzy_scan_passed_over:
  "passed_over L t d c T ex \<Longrightarrow> fuzzy_scan L t d c T (ex # rest) = fuzzy_scan L t d c T rest"
  by (auto simp: passed_over_def gated_def split: sum.splits if_splits)

declare fuzzy_scan.simps(2) [simp del]

lemma fuzzy_scan_skip_prefix:
  "list_all (passed_over L t d c T) pre \<Longrightarrow>
   fuzzy_scan L t d c T (pre @ rest) = fuzzy_scan L t d c T rest"
proof (induction pre)
  case Nil
  then show ?case by simp
next
  case (Cons ex pre)
  then have "fuzzy_scan L t d c T (ex # (pre @ rest)) = fuzzy_scan L t d c T (pre @ rest)"
    by (simp add: fuzzy_scan_passed_over)
  with Cons show ?case by simp
qed

lemma fuzzy_scan_none:
  "list_all (passed_over L t d c T) events \<Longrightarrow> fuzzy_scan L t d c T events = Inr (False, [])"
  using fuzzy_scan_skip_prefix [of L t d c T events "[]"] by simp

lemma fuzzy_scan_first:
  assumes "list_all (passed_over L t d c T) pre" and "gated d c ex"
    and "normalize_text (dict_get ex ''title'' (PStr [])) = Inr et"
    and "of_int T \<le> token_sort_ratio L t et"
  shows "fuzzy_scan L t d c T (pre @ ex # post)
           = Inr (True, ''fuzzy_match_'' @ str_float L (token_sort_ratio L t et) @ ''pct'')"
  using assms by (simp add: fuzzy_scan_skip_prefix fuzzy_scan_hit)

text \<open>Every positive answer of the loop comes from a gated record at or over the threshold.\<close>

lemma fuzzy_scan_True:
  "fuzzy_scan L t d c T events = Inr (True, r) \<Longrightarrow>
   \<exists>ex et. ex \<in> set events \<and> gated d c ex
     \<and> normalize_text (dict_get ex ''title'' (PStr [])) = Inr et
     \<and> of_int T \<le> token_sort_ratio L t et
     \<and> r = ''fuzzy_match_'' @ str_float L (token_sort_ratio L t et) @ ''pct''"
proof (induction events)
  case Nil
  then show ?case by simp
next
  case (Cons ex rest)
  show ?case
  proof (cases "passed_over L t d c T ex")
    case True
    then have "fuzzy_scan L t d c T rest = Inr (True, r)"
      using Cons.prems by (simp add: fuzzy_scan_passed_over)
    then show ?thesis using Cons.IH by auto
  next
    case False
    then show ?thesis
      using Cons.prems
      by (auto simp: fuzzy_scan.simps(2) passed_over_def gated_def Let_def
          split: sum.splits if_splits)
  qed
qed

lemma fuzzy_scan_reason:
  "fuzzy_scan L t d c T events = Inr (dup, r) \<Longrightarrow>
   (dup \<and> take 12 r = ''fuzzy_match_'') \<or> (\<not> dup \<and> r = [])"
  by (induction events) (auto simp: fuzzy_scan.simps(2) Let_def split: sum.splits if_splits)

text \<open>What \<open>is_duplicate\<close> does once layers 1 and 2 have not matched.\<close>

lemma is_duplicate_fuzzy_layer:
  assumes "\<not> (lookup_id event \<noteq> [] \<and> lookup_id event \<in> ids)"
    and "normalize_text (dict_get event ''title'' (PStr [])) = Inr t"
    and "normalize_text (dict_get event ''city'' (PStr [])) = Inr c"
    and "sha256_hexdigest (encode_utf8
           (t @ ''|'' @ normalize_date (dict_get event ''start_date'' (PStr [])) @ ''|'' @ c)) \<notin> hashes"
  shows "is_duplicate L event ids hashes events T
           = fuzzy_scan L t (normalize_date (dict_get event ''start_date'' (PStr []))) c T events"
  using assms by (auto simp: is_duplicate_def lookup_id_def compute_content_hash_def Let_def)

lemma is_duplicate_fuzzy_reason:
  assumes "is_duplicate L event ids hashes events T = Inr (True, r)"
    and "take 12 r = ''fuzzy_match_''"
  shows "\<exists>t c. normalize_text (dict_get event ''title'' (PStr [])) = Inr t
           \<and> normalize_text (dict_get event ''city'' (PStr [])) = Inr c
           \<and> fuzzy_scan L t (normalize_date (dict_get event ''start_date'' (PStr []))) c T events
               = Inr (True, r)"
  using assms
  by (auto simp: is_duplicate_def compute_content_hash_def Let_def split: if_splits sum.splits)

lemma is_duplicate_reaches:
  "reaches_fuzzy_layer event ids hashes t d c \<Longrightarrow>
   is_duplicate L event ids hashes events T = fuzzy_scan L t d c T events"
  unfolding reaches_fuzzy_layer_def using is_duplicate_fuzzy_layer by blast

lemma text_fields_normalize:
  "text_fields ex \<Longrightarrow>
   \<exists>c' et. normalize_text (dict_get ex ''city'' (PStr [])) = Inr c'
     \<and> normalize_text (dict_get ex ''title'' (PStr [])) = Inr et"
  by (auto simp: text_fields_def normalize_text_is_text)

lemma fuzzy_scan_total:
  "list_all text_fields events \<Longrightarrow> \<exists>dup r. fuzzy_scan L t d c T events = Inr (dup, r)"
proof (induction events)
  case Nil
  show ?case by auto
next
  case (Cons ex rest)
  have tf: "text_fields ex" and tl: "list_all text_fields rest"
    using Cons.prems by simp_all
  obtain c' et where n: "normalize_text (dict_get ex ''city'' (PStr [])) = Inr c'"
    "normalize_text (dict_get ex ''title'' (PStr [])) = Inr et"
    using text_fields_normalize [OF tf] by blast
  obtain dup r where "fuzzy_scan L t d c T rest = Inr (dup, r)"
    using Cons.IH [OF tl] by blast
  then show ?case
    using n by (auto simp: fuzzy_scan.simps(2) Let_def)
qed

lemma fuzzy_scan_False:
  "fuzzy_scan L t d c T events = Inr (False, r) \<Longrightarrow> list_all (passed_over L t d c T) events"
proof (induction events)
  case Nil
  then show ?case by simp
next
  case (Cons ex rest)
  have po: "passed_over L t d c T ex"
    using Cons.prems
    by (auto simp: fuzzy_scan.simps(2) passed_over_def gated_def Let_def split: sum.splits if_splits)
  then have "fuzzy_scan L t d c T rest = Inr (False, r)"
    using Cons.prems by (simp add: fuzzy_scan_passed_over)
  then show ?case using po Cons.IH by simp
qed

lemma passed_over_below:
  "passed_over L t d c T ex \<Longrightarrow> gated d c ex \<Longrightarrow>
   normalize_text (dict_get ex ''title'' (PStr [])) = Inr et \<Longrightarrow> token_sort_ratio L t et < of_int T"
  by (auto simp: passed_over_def gated_def split: sum.splits)

lemma fuzzy_scan_some:
  assumes "list_all text_fields events" and "ex \<in> set events" and "gated d c ex"
    and "normalize_text (dict_get ex ''title'' (PStr [])) = Inr et"
    and "of_int T \<le> token_sort_ratio L t et"
  shows "\<exists>r. fuzzy_scan L t d c T events = Inr (True, r) \<and> take 12 r = ''fuzzy_match_''"
proof -
  obtain dup r where res: "fuzzy_scan L t d c T events = Inr (dup, r)"
    using fuzzy_scan_total [OF assms(1)] by blast
  have dup
  proof (rule ccontr)
    assume "\<not> dup"
    then have "list_all (passed_over L t d c T) events"
      using res fuzzy_scan_False by simp
    then have "passed_over L t d c T ex"
      using assms(2) by (simp add: list_all_iff)
    then have "token_sort_ratio L t et < of_int T"
      using assms(3,4) by (rule passed_over_below)
    then show False using assms(5) by simp
  qed
  then show ?thesis
    using res fuzzy_scan_reason [OF res] by auto
qed

lemma passed_over_text:
  assumes "text_fields ex"
    and "\<And>et. gated d c ex \<Longrightarrow> normalize_text (dict_get ex ''title'' (PStr [])) = Inr et \<Longrightarrow>
           token_sort_ratio L t et < of_int T"
  shows "passed_over L t d c T ex"
proof -
  obtain c' et where "normalize_text (dict_get ex ''city'' (PStr [])) = Inr c'"
    and "normalize_text (dict_get ex ''title'' (PStr [])) = Inr et"
    using text_fields_normalize [OF assms(1)] by auto
  then show ?thesis
    using assms(2) by (auto simp: passed_over_def)
qed

subsection \<open>Concrete runs\<close>

lemma jazz_fields:
  "dict_get (jazz title city) ''title'' dflt = PStr title"
  "dict_get (jazz title city) ''start_date'' dflt = PStr ''2025-03-01''"
  "dict_get (jazz title city) ''city'' dflt = PStr city"
  "dict_get (jazz title city) ''source_id'' dflt = dflt"
  by (simp_all add: jazz_def dict_get_def)

lemma jazz_lookup_id: "lookup_id (jazz title city) = []"
  by (simp add: lookup_id_def jazz_fields py_strip_def)

lemma jazz_normal_forms:
  "normalize_str ''jazz night'' = ''jazz night''" "normalize_str ''jazz light'' = ''jazz light''"
  "normalize_str ''jazz nights'' = ''jazz nights''" "normalize_str ''Mumbai'' = ''mumbai''"
  "normalize_str ''mumbai'' = ''mumbai''" "normalize_str ''MUMBAI'' = ''mumbai''"
  "normalize_str ''Pune'' = ''pune''" "normalize_str [] = []"
  "normalize_date (PStr ''2025-03-01'') = ''2025-03-01''"
  by code_simp+

lemma ref_lib_fields:
  "token_sort_ratio ref_lib = ref_token_sort_ratio" "str_float ref_lib = ref_str_float"
  by (simp_all add: ref_lib_def)

lemma jazz_scores:
  "ref_token_sort_ratio ''jazz night'' ''jazz light'' = 90"
  "ref_token_sort_ratio ''jazz night'' ''jazz nights'' = 2000 / 21"
  "ref_str_float 90 = ''90.0''"
  by code_simp+

lemma jazz_reaches:
  "reaches_fuzzy_layer (jazz ''jazz night'' ''Mumbai'') {} {} ''jazz night'' ''2025-03-01'' ''mumbai''"
  by (simp add: reaches_fuzzy_layer_def jazz_lookup_id jazz_fields jazz_normal_forms)

lemma jazz_gated:
  "gated ''2025-03-01'' ''mumbai'' (jazz title ''mumbai'')"
  "gated ''2025-03-01'' ''mumbai'' (jazz title ''MUMBAI'')"
  "\<not> gated ''2025-03-01'' ''mumbai'' (jazz title ''Pune'')"
  "gated ''2025-03-01'' [] (jazz title [])"
  by (simp_all add: gated_def jazz_fields jazz_normal_forms)

lemma jazz_text_fields: "text_fields (jazz title city)"
  by (simp add: text_fields_def jazz_fields)

lemma jazz_light_duplicate:
  "is_duplicate ref_lib (jazz ''jazz night'' ''Mumbai'') {} {} [jazz ''jazz light'' ''mumbai''] 85
     = Inr (True, ''fuzzy_match_90.0pct'')"
  by (simp add: is_duplicate_reaches [OF jazz_reaches] fuzzy_scan_hit [OF jazz_gated(1)]
      jazz_fields jazz_normal_forms ref_lib_fields jazz_scores)

subsection \<open>The gate\<close>

text \<open>
  Claim C4, as the code has it. The fuzzy layer compares the candidate with a stored
  tuple only when the tuple's normalized date equals the candidate's, the tuple's
  normalized city equals the candidate's, and the candidate's normalized date is not
  empty; the city may be empty. So every fuzzy duplicate has a non-empty normalized
  date and a stored tuple of the same normalized date and city at or over the threshold:
  a candidate with an empty normalized date is never a fuzzy duplicate, and two records
  with different normalized cities never fuzzy-match.
\<close>

theorem fuzzy_gate:
  assumes "is_duplicate L event ids hashes events T = Inr (True, r)"
    and "take 12 r = ''fuzzy_match_''"
  shows "normalize_date (dict_get event ''start_date'' (PStr [])) \<noteq> []
    \<and> (\<exists>ex t et. ex \<in> set events
          \<and> normalize_date (dict_get ex ''start_date'' (PStr []))
              = normalize_date (dict_get event ''start_date'' (PStr []))
          \<and> normalize_text (dict_get ex ''city'' (PStr []))
              = normalize_text (dict_get event ''city'' (PStr []))
          \<and> normalize_text (dict_get event ''title'' (PStr [])) = Inr t
          \<and> normalize_text (dict_get ex ''title'' (PStr [])) = Inr et
          \<and> of_int T \<le> token_sort_ratio L t et
          \<and> r = ''fuzzy_match_'' @ str_float L (token_sort_ratio L t et) @ ''pct'')"
proof -
  obtain t c where t: "normalize_text (dict_get event ''title'' (PStr [])) = Inr t"
    and c: "normalize_text (dict_get event ''city'' (PStr [])) = Inr c"
    and scan: "fuzzy_scan L t (normalize_date (dict_get event ''start_date'' (PStr []))) c T events
                 = Inr (True, r)"
    using is_duplicate_fuzzy_reason [OF assms] by blast
  from fuzzy_scan_True [OF scan] obtain ex et where
    "ex \<in> set events" "gated (normalize_date (dict_get event ''start_date'' (PStr []))) c ex"
    "normalize_text (dict_get ex ''title'' (PStr [])) = Inr et"
    "of_int T \<le> token_sort_ratio L t et"
    "r = ''fuzzy_match_'' @ str_float L (token_sort_ratio L t et) @ ''pct''"
    by blast
  then show ?thesis
    using t c unfolding gated_def by auto
qed

theorem fuzzy_gate_witness:
  "is_duplicate ref_lib (jazz ''jazz night'' ''Mumbai'') {} {} [jazz ''jazz light'' ''mumbai''] 85
     = Inr (True, ''fuzzy_match_90.0pct'')
   \<and> take 12 ''fuzzy_match_90.0pct'' = ''fuzzy_match_''
   \<and> normalize_date (dict_get (jazz ''jazz night'' ''Mumbai'') ''start_date'' (PStr [])) \<noteq> []
   \<and> (\<exists>ex. ex \<in> set [jazz ''jazz light'' ''mumbai'']
         \<and> normalize_date (dict_get ex ''start_date'' (PStr []))
             = normalize_date (dict_get (jazz ''jazz night'' ''Mumbai'') ''start_date'' (PStr []))
         \<and> normalize_text (dict_get ex ''city'' (PStr []))
             = normalize_text (dict_get (jazz ''jazz night'' ''Mumbai'') ''city'' (PStr [])))"
proof -
  have h2: "take 12 ''fuzzy_match_90.0pct'' = ''fuzzy_match_''" by simp
  show ?thesis
    using fuzzy_gate [OF jazz_light_duplicate h2] jazz_light_duplicate h2 by blast
qed

text \<open>
  The claim as stated fails: the condition \<open>same_date and same_city and new_date_norm\<close>
  does not test the city, so a candidate with an empty city is matched against a stored
  tuple with an empty city.
\<close>

theorem fuzzy_gate_counterexample:
  "normalize_text (dict_get (jazz ''jazz night'' []) ''city'' (PStr [])) = Inr []
   \<and> is_duplicate ref_lib (jazz ''jazz night'' []) {} {} [jazz ''jazz light'' []] 85
       = Inr (True, ''fuzzy_match_90.0pct'')"
proof -
  have "reaches_fuzzy_layer (jazz ''jazz night'' []) {} {} ''jazz night'' ''2025-03-01'' []"
    by (simp add: reaches_fuzzy_layer_def jazz_lookup_id jazz_fields jazz_normal_forms)
  then show ?thesis
    by (simp add: is_duplicate_reaches fuzzy_scan_hit [OF jazz_gated(4)]
        jazz_fields jazz_normal_forms ref_lib_fields jazz_scores)
qed

subsection \<open>The threshold\<close>

text \<open>
  Claim C6. For a candidate that reaches the fuzzy layer, against stored tuples whose
  title and city are strings: if some gated tuple scores exactly the threshold, the
  candidate is a duplicate with a \<open>fuzzy_match\<close> reason; if every gated tuple scores
  strictly below the threshold, the candidate is not a duplicate.
\<close>

theorem threshold_boundary:
  assumes "reaches_fuzzy_layer event ids hashes t d c" and "list_all text_fields events"
  shows "((\<exists>ex et. ex \<in> set events \<and> gated d c ex
             \<and> normalize_text (dict_get ex ''title'' (PStr [])) = Inr et
             \<and> token_sort_ratio L t et = of_int T)
          \<longrightarrow> (\<exists>r. is_duplicate L event ids hashes events T = Inr (True, r)
                 \<and> take 12 r = ''fuzzy_match_''))
       \<and> ((\<forall>ex et. ex \<in> set events \<and> gated d c ex
             \<and> normalize_text (dict_get ex ''title'' (PStr [])) = Inr et
             \<longrightarrow> token_sort_ratio L t et < of_int T)
          \<longrightarrow> is_duplicate L event ids hashes events T = Inr (False, []))"
proof (intro conjI impI)
  assume "\<exists>ex et. ex \<in> set events \<and> gated d c ex
             \<and> normalize_text (dict_get ex ''title'' (PStr [])) = Inr et
             \<and> token_sort_ratio L t et = of_int T"
  then obtain ex et where "ex \<in> set events" "gated d c ex"
    "normalize_text (dict_get ex ''title'' (PStr [])) = Inr et"
    "of_int T \<le> token_sort_ratio L t et"
    by auto
  then show "\<exists>r. is_duplicate L event ids hashes events T = Inr (True, r)
                 \<and> take 12 r = ''fuzzy_match_''"
    using fuzzy_scan_some [OF assms(2)] is_duplicate_reaches [OF assms(1)] by metis
next
  assume below: "\<forall>ex et. ex \<in> set events \<and> gated d c ex
             \<and> normalize_text (dict_get ex ''title'' (PStr [])) = Inr et
             \<longrightarrow> token_sort_ratio L t et < of_int T"
  have "passed_over L t d c T ex" if "ex \<in> set events" for ex
    using that assms(2) below by (intro passed_over_text) (auto simp: list_all_iff)
  then have "list_all (passed_over L t d c T) events"
    by (simp add: list_all_iff)
  then show "is_duplicate L event ids hashes events T = Inr (False, [])"
    using is_duplicate_reaches [OF assms(1)] by (simp add: fuzzy_scan_none)
qed

theorem threshold_boundary_witness:
  "reaches_fuzzy_layer (jazz ''jazz night'' ''Mumbai'') {} {} ''jazz night'' ''2025-03-01'' ''mumbai''
   \<and> list_all text_fields [jazz ''jazz light'' ''mumbai'']
   \<and> gated ''2025-03-01'' ''mumbai'' (jazz ''jazz light'' ''mumbai'')
   \<and> normalize_text (dict_get (jazz ''jazz light'' ''mumbai'') ''title'' (PStr [])) = Inr ''jazz light''
   \<and> token_sort_ratio ref_lib ''jazz night'' ''jazz light'' = of_int 90
   \<and> token_sort_ratio ref_lib ''jazz night'' ''jazz light'' < of_int 91
   \<and> (\<exists>r. is_duplicate ref_lib (jazz ''jazz night'' ''Mumbai'') {} {}
             [jazz ''jazz light'' ''mumbai''] 90 = Inr (True, r)
           \<and> take 12 r = ''fuzzy_match_'')
   \<and> is_duplicate ref_lib (jazz ''jazz night'' ''Mumbai'') {} {}
             [jazz ''jazz light'' ''mumbai''] 91 = Inr (False, [])"
proof -
  have tf: "list_all text_fields [jazz ''jazz light'' ''mumbai'']"
    by (simp add: jazz_text_fields)
  have title: "normalize_text (dict_get (jazz ''jazz light'' ''mumbai'') ''title'' (PStr []))
                 = Inr ''jazz light''"
    by (simp add: jazz_fields jazz_normal_forms)
  have score: "token_sort_ratio ref_lib ''jazz night'' ''jazz light'' = 90"
    by (simp add: ref_lib_fields jazz_scores)
  have at: "\<exists>ex et. ex \<in> set [jazz ''jazz light'' ''mumbai''] \<and> gated ''2025-03-01'' ''mumbai'' ex
             \<and> normalize_text (dict_get ex ''title'' (PStr [])) = Inr et
             \<and> token_sort_ratio ref_lib ''jazz night'' et = of_int 90"
    using jazz_gated(1) title score by auto
  have below: "\<forall>ex et. ex \<in> set [jazz ''jazz light'' ''mumbai''] \<and> gated ''2025-03-01'' ''mumbai'' ex
             \<and> normalize_text (dict_get ex ''title'' (PStr [])) = Inr et
             \<longrightarrow> token_sort_ratio ref_lib ''jazz night'' et < of_int 91"
    using title score by auto
  have a: "\<exists>r. is_duplicate ref_lib (jazz ''jazz night'' ''Mumbai'') {} {}
             [jazz ''jazz light'' ''mumbai''] 90 = Inr (True, r) \<and> take 12 r = ''fuzzy_match_''"
    using threshold_boundary [OF jazz_reaches tf, of ref_lib 90] at by blast
  have b: "is_duplicate ref_lib (jazz ''jazz night'' ''Mumbai'') {} {}
             [jazz ''jazz light'' ''mumbai''] 91 = Inr (False, [])"
    using threshold_boundary [OF jazz_reaches tf, of ref_lib 91] below by blast
  show ?thesis
    using jazz_reaches tf jazz_gated(1) title score a b by simp
qed

subsection \<open>First over the threshold\<close>

text \<open>
  Claim C7. The fuzzy layer reports the first stored tuple, in list order, that passes
  the gate and reaches the threshold: when the tuples before it are passed over, the
  reason carries that tuple's score, whatever follows it in the list, also a tuple with
  a higher score.
\<close>

theorem first_over_threshold:
  assumes "reaches_fuzzy_layer event ids hashes t d c"
    and "list_all (passed_over L t d c T) pre" and "gated d c ex"
    and "normalize_text (dict_get ex ''title'' (PStr [])) = Inr et"
    and "of_int T \<le> token_sort_ratio L t et"
  shows "is_duplicate L event ids hashes (pre @ ex # post) T
           = Inr (True, ''fuzzy_match_'' @ str_float L (token_sort_ratio L t et) @ ''pct'')"
  using is_duplicate_reaches [OF assms(1)] fuzzy_scan_first [OF assms(2-5)] by simp

theorem first_over_threshold_witness:
  "reaches_fuzzy_layer (jazz ''jazz night'' ''Mumbai'') {} {} ''jazz night'' ''2025-03-01'' ''mumbai''
   \<and> list_all (passed_over ref_lib ''jazz night'' ''2025-03-01'' ''mumbai'' 85)
        [jazz ''jazz night'' ''Pune'']
   \<and> gated ''2025-03-01'' ''mumbai'' (jazz ''jazz light'' ''mumbai'')
   \<and> normalize_text (dict_get (jazz ''jazz light'' ''mumbai'') ''title'' (PStr [])) = Inr ''jazz light''
   \<and> of_int 85 \<le> token_sort_ratio ref_lib ''jazz night'' ''jazz light''
   \<and> gated ''2025-03-01'' ''mumbai'' (jazz ''jazz nights'' ''MUMBAI'')
   \<and> token_sort_ratio ref_lib ''jazz night'' ''jazz light''
       < token_sort_ratio ref_lib ''jazz night'' ''jazz nights''
   \<and> is_duplicate ref_lib (jazz ''jazz night'' ''Mumbai'') {} {}
        ([jazz ''jazz night'' ''Pune''] @ jazz ''jazz light'' ''mumbai'' # [jazz ''jazz nights'' ''MUMBAI''])
        85
       = Inr (True, ''fuzzy_match_90.0pct'')"
proof -
  have pre: "list_all (passed_over ref_lib ''jazz night'' ''2025-03-01'' ''mumbai'' 85)
        [jazz ''jazz night'' ''Pune'']"
    by (simp add: passed_over_def jazz_gated jazz_fields)
  have title: "normalize_text (dict_get (jazz ''jazz light'' ''mumbai'') ''title'' (PStr []))
                 = Inr ''jazz light''"
    by (simp add: jazz_fields jazz_normal_forms)
  have score: "of_int 85 \<le> token_sort_ratio ref_lib ''jazz night'' ''jazz light''"
    by (simp add: ref_lib_fields jazz_scores)
  have later: "token_sort_ratio ref_lib ''jazz night'' ''jazz light''
                 < token_sort_ratio ref_lib ''jazz night'' ''jazz nights''"
    by (simp add: ref_lib_fields jazz_scores)
  show ?thesis
    using first_over_threshold [OF jazz_reaches pre jazz_gated(1) title score,
        of "[jazz ''jazz nights'' ''MUMBAI'']"]
      jazz_reaches pre jazz_gated(1,2) title score later
    by (simp add: ref_lib_fields jazz_scores)
qed

section \<open>The orchestrator\<close>



lemma is_duplicate_unique_hash:
  "is_duplicate L event ids hashes events T = Inr (False, r) \<Longrightarrow>
   \<exists>h. compute_content_hash (dict_get event ''title'' (PStr []))
          (dict_get event ''start_date'' (PStr [])) (dict_get event ''city'' (PStr [])) = Inr h"
  by (auto simp: is_duplicate_def Let_def split: if_splits sum.splits)

lemma prepare_event_row_Inr:
  "compute_content_hash (dict_get event ''title'' (PStr []))
     (dict_get event ''start_date'' (PStr [])) (dict_get event ''city'' (PStr [])) = Inr h \<Longrightarrow>
   \<exists>row. prepare_event_row now event = Inr row"
  by (simp add: prepare_event_row_def Let_def)

lemma process_event_error:
  "is_duplicate L event (source_ids st) (content_hashes st) (events_list st) 85 = Inl e \<Longrightarrow>
   process_event L now st event = st\<lparr>stats := (stats st)\<lparr>errors := errors (stats st) + 1\<rparr>\<rparr>"
  by (simp add: process_event_def)

lemma process_event_duplicate:
  "is_duplicate L event (source_ids st) (content_hashes st) (events_list st) 85 = Inr (True, r) \<Longrightarrow>
   process_event L now st event =
     (if py_in ''source_id'' r
        then st\<lparr>stats := (stats st)\<lparr>dup_exact := dup_exact (stats st) + 1\<rparr>\<rparr>
      else if py_in ''hash'' r
        then st\<lparr>stats := (stats st)\<lparr>dup_hash := dup_hash (stats st) + 1\<rparr>\<rparr>
      else st\<lparr>stats := (stats st)\<lparr>dup_fuzzy := dup_fuzzy (stats st) + 1\<rparr>\<rparr>)"
  by (simp add: process_event_def)

lemma process_event_unique:
  assumes "is_duplicate L event (source_ids st) (content_hashes st) (events_list st) 85 = Inr (False, r)"
  shows "\<exists>row h. prepare_event_row now event = Inr row
     \<and> compute_content_hash (dict_get event ''title'' (PStr []))
          (dict_get event ''start_date'' (PStr [])) (dict_get event ''city'' (PStr [])) = Inr h
     \<and> process_event L now st event =
         st\<lparr>source_ids := insert (py_str (dict_get event ''source_id'' (PStr []))) (source_ids st),
            content_hashes := insert h (content_hashes st),
            events_list := events_list st @
              [[''title'' \<mapsto> dict_get event ''title'' (PStr []),
                ''start_date'' \<mapsto> dict_get event ''start_date'' (PStr []),
                ''city'' \<mapsto> dict_get event ''city'' (PStr [])]],
            new_rows := new_rows st @ [row],
            stats := (stats st)\<lparr>new := new (stats st) + 1\<rparr>\<rparr>"
proof -
  obtain h where h: "compute_content_hash (dict_get event ''title'' (PStr []))
          (dict_get event ''start_date'' (PStr [])) (dict_get event ''city'' (PStr [])) = Inr h"
    using is_duplicate_unique_hash [OF assms] by blast
  obtain row where row: "prepare_event_row now event = Inr row"
    using prepare_event_row_Inr [OF h] by blast
  show ?thesis
    using assms h row by (simp add: process_event_def Let_def)
qed

lemma process_event_counts:
  "counted (stats (process_event L now st event)) = counted (stats st) + 1
   \<and> length (new_rows (process_event L now st event)) + new (stats st)
       = length (new_rows st) + new (stats (process_event L now st event))"
proof (cases "is_duplicate L event (source_ids st) (content_hashes st) (events_list st) 85")
  case (Inl e)
  then show ?thesis
    by (simp add: process_event_error counted_def)
next
  case (Inr res)
  obtain dup r where res: "res = (dup, r)" by (cases res)
  show ?thesis
  proof (cases dup)
    case True
    then show ?thesis
      using Inr res by (simp add: process_event_duplicate counted_def)
  next
    case False
    then obtain row h where "process_event L now st event =
         st\<lparr>source_ids := insert (py_str (dict_get event ''source_id'' (PStr []))) (source_ids st),
            content_hashes := insert h (content_hashes st),
            events_list := events_list st @
              [[''title'' \<mapsto> dict_get event ''title'' (PStr []),
                ''start_date'' \<mapsto> dict_get event ''start_date'' (PStr []),
                ''city'' \<mapsto> dict_get event ''city'' (PStr [])]],
            new_rows := new_rows st @ [row],
            stats := (stats st)\<lparr>new := new (stats st) + 1\<rparr>\<rparr>"
      using Inr res process_event_unique [of L event st r now] by auto
    then show ?thesis
      by (simp add: counted_def)
  qed
qed

lemma process_all_counts:
  "counted (stats (process_all L clock st events)) = counted (stats st) + length events
   \<and> length (new_rows (process_all L clock st events)) + new (stats st)
       = length (new_rows st) + new (stats (process_all L clock st events))"
proof (induction events arbitrary: st clock)
  case Nil
  then show ?case by simp
next
  case (Cons event rest)
  show ?case
    using Cons.IH [of "\<lambda>i. clock (Suc i)" "process_event L (clock 0) st event"]
      process_event_counts [of L "clock 0" st event]
    by simp
qed

text \<open>
  Claim C10. After \<open>deduplicate_and_store\<close> has processed a batch, the five tallies
  \<open>new\<close>, \<open>dup_exact\<close>, \<open>dup_hash\<close>, \<open>dup_fuzzy\<close> and \<open>errors\<close> add up to the
  number of candidates, and the number of rows given to the bulk write (none when the
  write is skipped) is the \<open>new\<close> tally.
\<close>

theorem counter_partition:
  "new (result_stats (deduplicate_and_store L clock existing all_events))
     + dup_exact (result_stats (deduplicate_and_store L clock existing all_events))
     + dup_hash (result_stats (deduplicate_and_store L clock existing all_events))
     + dup_fuzzy (result_stats (deduplicate_and_store L clock existing all_events))
     + errors (result_stats (deduplicate_and_store L clock existing all_events))
     = length all_events
   \<and> (case appended (deduplicate_and_store L clock existing all_events) of
         None \<Rightarrow> 0 | Some rows \<Rightarrow> length rows)
       = new (result_stats (deduplicate_and_store L clock existing all_events))"
proof -
  define st where "st = process_all L clock (initial_state existing) all_events"
  have sum: "counted (stats st) = length all_events"
    and rows: "length (new_rows st) = new (stats st)"
    using process_all_counts [of L clock "initial_state existing" all_events]
    by (simp_all add: st_def initial_state_def counted_def)
  have res: "result_stats (deduplicate_and_store L clock existing all_events) = stats st"
    "appended (deduplicate_and_store L clock existing all_events)
       = (if new_rows st \<noteq> [] then Some (new_rows st) else None)"
    by (simp_all add: deduplicate_and_store_def Let_def st_def)
  show ?thesis
    using sum rows unfolding res counted_def by (cases "new_rows st = []") auto
qed

section \<open>Duplicates within one batch\<close>

lemma initial_empty:
  "source_ids (initial_state empty_index) = {}" "content_hashes (initial_state empty_index) = {}"
  "events_list (initial_state empty_index) = []" "new_rows (initial_state empty_index) = []"
  "stats (initial_state empty_index)
     = \<lparr>new = 0, dup_exact = 0, dup_hash = 0, dup_fuzzy = 0, errors = 0\<rparr>"
  by (simp_all add: initial_state_def empty_index_def)

lemma load_existing_events_Nil: "load_existing_events [] = empty_index"
  by (simp add: load_existing_events_def empty_index_def)

lemma py_in_reasons:
  "\<not> py_in ''source_id'' ''content_hash''" "py_in ''hash'' ''content_hash''"
  "py_in ''source_id'' ''exact_source_id''"
  by simp_all

lemma process_event_unique_index:
  assumes "is_duplicate L event (source_ids st) (content_hashes st) (events_list st) 85 = Inr (False, r)"
    and "compute_content_hash (dict_get event ''title'' (PStr []))
          (dict_get event ''start_date'' (PStr [])) (dict_get event ''city'' (PStr [])) = Inr h"
  shows "source_ids (process_event L now st event)
           = insert (py_str (dict_get event ''source_id'' (PStr []))) (source_ids st)"
    and "content_hashes (process_event L now st event) = insert h (content_hashes st)"
    and "events_list (process_event L now st event) = events_list st @
              [[''title'' \<mapsto> dict_get event ''title'' (PStr []),
                ''start_date'' \<mapsto> dict_get event ''start_date'' (PStr []),
                ''city'' \<mapsto> dict_get event ''city'' (PStr [])]]"
    and "stats (process_event L now st event) = (stats st)\<lparr>new := new (stats st) + 1\<rparr>"
    and "length (new_rows (process_event L now st event)) = length (new_rows st) + 1"
  using process_event_unique [OF assms(1), of now] assms(2) by auto

lemma is_duplicate_empty_index:
  assumes "text_fields event"
  shows "is_duplicate L event {} {} [] T = Inr (False, [])"
proof -
  obtain c t where "normalize_text (dict_get event ''city'' (PStr [])) = Inr c"
    "normalize_text (dict_get event ''title'' (PStr [])) = Inr t"
    using text_fields_normalize [OF assms] by blast
  then show ?thesis
    by (simp add: is_duplicate_def compute_content_hash_def Let_def)
qed

lemma compute_content_hash_total:
  assumes "text_fields event"
  shows "\<exists>h. compute_content_hash (dict_get event ''title'' (PStr []))
          (dict_get event ''start_date'' (PStr [])) (dict_get event ''city'' (PStr [])) = Inr h"
proof -
  obtain c t where "normalize_text (dict_get event ''city'' (PStr [])) = Inr c"
    "normalize_text (dict_get event ''title'' (PStr [])) = Inr t"
    using text_fields_normalize [OF assms] by blast
  then show ?thesis
    by (simp add: compute_content_hash_def Let_def)
qed

lemma is_duplicate_known_hash:
  assumes "\<not> (lookup_id event \<noteq> [] \<and> lookup_id event \<in> ids)"
    and "compute_content_hash (dict_get event ''title'' (PStr []))
          (dict_get event ''start_date'' (PStr [])) (dict_get event ''city'' (PStr [])) = Inr h"
    and "h \<in> hashes"
  shows "is_duplicate L event ids hashes events T = Inr (True, ''content_hash'')"
  using assms by (auto simp: is_duplicate_def lookup_id_def Let_def)

text \<open>Two candidates in a row from the empty index, the second with the first's title,
  date and city.\<close>

lemma second_listing:
  fixes L :: pylib and clock :: "nat \<Rightarrow> string"
  assumes tf: "text_fields e1"
    and same: "dict_get e2 ''title'' (PStr []) = dict_get e1 ''title'' (PStr [])"
      "dict_get e2 ''start_date'' (PStr []) = dict_get e1 ''start_date'' (PStr [])"
      "dict_get e2 ''city'' (PStr []) = dict_get e1 ''city'' (PStr [])"
  defines "st1 \<equiv> process_event L (clock 0) (initial_state empty_index) e1"
  shows "is_duplicate L e1 (source_ids (initial_state empty_index))
           (content_hashes (initial_state empty_index)) (events_list (initial_state empty_index)) 85
           = Inr (False, [])"
    and "stats st1 = \<lparr>new = 1, dup_exact = 0, dup_hash = 0, dup_fuzzy = 0, errors = 0\<rparr>"
    and "length (new_rows st1) = 1"
    and "source_ids st1 = {py_str (dict_get e1 ''source_id'' (PStr []))}"
    and "lookup_id e2 \<noteq> py_str (dict_get e1 ''source_id'' (PStr [])) \<Longrightarrow>
         is_duplicate L e2 (source_ids st1) (content_hashes st1) (events_list st1) 85
           = Inr (True, ''content_hash'')"
    and "lookup_id e2 \<noteq> [] \<Longrightarrow> lookup_id e2 = py_str (dict_get e1 ''source_id'' (PStr [])) \<Longrightarrow>
         is_duplicate L e2 (source_ids st1) (content_hashes st1) (events_list st1) 85
           = Inr (True, ''exact_source_id'')"
proof -
  show u: "is_duplicate L e1 (source_ids (initial_state empty_index))
           (content_hashes (initial_state empty_index)) (events_list (initial_state empty_index)) 85
           = Inr (False, [])"
    by (simp add: initial_empty is_duplicate_empty_index [OF tf])
  obtain h where h: "compute_content_hash (dict_get e1 ''title'' (PStr []))
          (dict_get e1 ''start_date'' (PStr [])) (dict_get e1 ''city'' (PStr [])) = Inr h"
    using compute_content_hash_total [OF tf] by blast
  note idx = process_event_unique_index [OF u h, of "clock 0", folded st1_def]
  show "stats st1 = \<lparr>new = 1, dup_exact = 0, dup_hash = 0, dup_fuzzy = 0, errors = 0\<rparr>"
    by (simp add: idx initial_empty)
  show "length (new_rows st1) = 1"
    by (simp add: idx initial_empty)
  show ids: "source_ids st1 = {py_str (dict_get e1 ''source_id'' (PStr []))}"
    by (simp add: idx initial_empty)
  have h2: "compute_content_hash (dict_get e2 ''title'' (PStr []))
          (dict_get e2 ''start_date'' (PStr [])) (dict_get e2 ''city'' (PStr [])) = Inr h"
    by (simp add: same h)
  show "is_duplicate L e2 (source_ids st1) (content_hashes st1) (events_list st1) 85
           = Inr (True, ''content_hash'')"
    if "lookup_id e2 \<noteq> py_str (dict_get e1 ''source_id'' (PStr []))"
    using that by (intro is_duplicate_known_hash [OF _ h2]) (simp_all add: ids idx)
  show "is_duplicate L e2 (source_ids st1) (content_hashes st1) (events_list st1) 85
           = Inr (True, ''exact_source_id'')"
    if "lookup_id e2 \<noteq> []" "lookup_id e2 = py_str (dict_get e1 ''source_id'' (PStr []))"
    using that by (simp add: is_duplicate_def lookup_id_def ids)
qed

lemma ai_summit_text_fields: "text_fields (ai_summit sid)"
  by (simp add: text_fields_def ai_summit_fields)

lemma ai_summit_lookup_ids:
  "lookup_id (ai_summit ''mu_7'') = ''mu_7''" "lookup_id (ai_summit '' a'') = ''a''"
  unfolding lookup_id_def ai_summit_fields by code_simp+

text \<open>
  Claim C1, as the code has it. A run starts from the empty index with two candidates of
  the same title, start date and city (the title and the city strings), where the second
  candidate's source id, trimmed, is not the first candidate's source id. The first is
  unique and counted under \<open>new\<close>; the second is a duplicate with reason
  \<open>content_hash\<close> and counted under \<open>dup_hash\<close>, because the first candidate's hash was
  folded into the index before the second was classified.
\<close>

theorem batch_self_dedup:
  assumes "text_fields e1"
    and "dict_get e2 ''title'' (PStr []) = dict_get e1 ''title'' (PStr [])"
    and "dict_get e2 ''start_date'' (PStr []) = dict_get e1 ''start_date'' (PStr [])"
    and "dict_get e2 ''city'' (PStr []) = dict_get e1 ''city'' (PStr [])"
    and "lookup_id e2 \<noteq> py_str (dict_get e1 ''source_id'' (PStr []))"
  shows "is_duplicate L e1 (source_ids (initial_state empty_index))
           (content_hashes (initial_state empty_index)) (events_list (initial_state empty_index)) 85
           = Inr (False, [])
    \<and> stats (process_event L (clock 0) (initial_state empty_index) e1)
        = \<lparr>new = 1, dup_exact = 0, dup_hash = 0, dup_fuzzy = 0, errors = 0\<rparr>
    \<and> is_duplicate L e2
          (source_ids (process_event L (clock 0) (initial_state empty_index) e1))
          (content_hashes (process_event L (clock 0) (initial_state empty_index) e1))
          (events_list (process_event L (clock 0) (initial_state empty_index) e1)) 85
        = Inr (True, ''content_hash'')
    \<and> stats (process_all L clock (initial_state empty_index) [e1, e2])
        = \<lparr>new = 1, dup_exact = 0, dup_hash = 1, dup_fuzzy = 0, errors = 0\<rparr>
    \<and> length (new_rows (process_all L clock (initial_state empty_index) [e1, e2])) = 1"
proof -
  note s = second_listing [OF assms(1-4)]
  have d: "is_duplicate L e2
          (source_ids (process_event L (clock 0) (initial_state empty_index) e1))
          (content_hashes (process_event L (clock 0) (initial_state empty_index) e1))
          (events_list (process_event L (clock 0) (initial_state empty_index) e1)) 85
        = Inr (True, ''content_hash'')"
    using s(5) assms(5) by simp
  show ?thesis
    using s(1,2,3) d by (simp add: process_event_duplicate [OF d] py_in_reasons)
qed

theorem batch_self_dedup_witness:
  "text_fields (ai_summit ''eb_1'')
   \<and> dict_get (ai_summit ''mu_7'') ''title'' (PStr []) = dict_get (ai_summit ''eb_1'') ''title'' (PStr [])
   \<and> dict_get (ai_summit ''mu_7'') ''start_date'' (PStr [])
       = dict_get (ai_summit ''eb_1'') ''start_date'' (PStr [])
   \<and> dict_get (ai_summit ''mu_7'') ''city'' (PStr []) = dict_get (ai_summit ''eb_1'') ''city'' (PStr [])
   \<and> lookup_id (ai_summit ''mu_7'') \<noteq> py_str (dict_get (ai_summit ''eb_1'') ''source_id'' (PStr []))
   \<and> is_duplicate ref_lib (ai_summit ''mu_7'')
          (source_ids (process_event ref_lib (fixed_clock 0) (initial_state empty_index) (ai_summit ''eb_1'')))
          (content_hashes (process_event ref_lib (fixed_clock 0) (initial_state empty_index) (ai_summit ''eb_1'')))
          (events_list (process_event ref_lib (fixed_clock 0) (initial_state empty_index) (ai_summit ''eb_1'')))
          85
        = Inr (True, ''content_hash'')
   \<and> stats (process_all ref_lib fixed_clock (initial_state empty_index)
        [ai_summit ''eb_1'', ai_summit ''mu_7''])
        = \<lparr>new = 1, dup_exact = 0, dup_hash = 1, dup_fuzzy = 0, errors = 0\<rparr>"
proof -
  have same: "dict_get (ai_summit ''mu_7'') ''title'' (PStr []) = dict_get (ai_summit ''eb_1'') ''title'' (PStr [])"
    "dict_get (ai_summit ''mu_7'') ''start_date'' (PStr [])
       = dict_get (ai_summit ''eb_1'') ''start_date'' (PStr [])"
    "dict_get (ai_summit ''mu_7'') ''city'' (PStr []) = dict_get (ai_summit ''eb_1'') ''city'' (PStr [])"
    by (simp_all add: ai_summit_fields)
  have diff: "lookup_id (ai_summit ''mu_7'') \<noteq> py_str (dict_get (ai_summit ''eb_1'') ''source_id'' (PStr []))"
    by (simp add: ai_summit_lookup_ids ai_summit_fields)
  show ?thesis
    using batch_self_dedup [OF ai_summit_text_fields same diff, of ref_lib fixed_clock]
      ai_summit_text_fields same diff
    by blast
qed

text \<open>
  The claim as stated fails: layer 1 trims the candidate's source id before the lookup,
  so two different, non-empty source ids can be the same id to layer 1, and the second
  candidate is then a duplicate with reason \<open>exact_source_id\<close>.
\<close>

theorem batch_self_dedup_counterexample:
  "''a'' \<noteq> '' a''
   \<and> is_duplicate ref_lib (ai_summit '' a'')
          (source_ids (process_event ref_lib (fixed_clock 0) (initial_state empty_index) (ai_summit ''a'')))
          (content_hashes (process_event ref_lib (fixed_clock 0) (initial_state empty_index) (ai_summit ''a'')))
          (events_list (process_event ref_lib (fixed_clock 0) (initial_state empty_index) (ai_summit ''a'')))
          85
        = Inr (True, ''exact_source_id'')
   \<and> stats (process_all ref_lib fixed_clock (initial_state empty_index)
        [ai_summit ''a'', ai_summit '' a''])
        = \<lparr>new = 1, dup_exact = 1, dup_hash = 0, dup_fuzzy = 0, errors = 0\<rparr>"
proof -
  have same: "dict_get (ai_summit '' a'') ''title'' (PStr []) = dict_get (ai_summit ''a'') ''title'' (PStr [])"
    "dict_get (ai_summit '' a'') ''start_date'' (PStr [])
       = dict_get (ai_summit ''a'') ''start_date'' (PStr [])"
    "dict_get (ai_summit '' a'') ''city'' (PStr []) = dict_get (ai_summit ''a'') ''city'' (PStr [])"
    by (simp_all add: ai_summit_fields)
  note s = second_listing [OF ai_summit_text_fields same]
  have d: "is_duplicate ref_lib (ai_summit '' a'')
          (source_ids (process_event ref_lib (fixed_clock 0) (initial_state empty_index) (ai_summit ''a'')))
          (content_hashes (process_event ref_lib (fixed_clock 0) (initial_state empty_index) (ai_summit ''a'')))
          (events_list (process_event ref_lib (fixed_clock 0) (initial_state empty_index) (ai_summit ''a'')))
          85
        = Inr (True, ''exact_source_id'')"
    by (rule s(6)) (simp_all add: ai_summit_lookup_ids ai_summit_fields)
  show ?thesis
    using d s(2) [of ref_lib fixed_clock]
    by (simp add: process_event_duplicate [OF d] py_in_reasons)
qed

subsection \<open>Two scenarios\<close>

text \<open>
  The scenario of three listings of one event: the first is accepted, the second and
  the third (whose title and city differ in case and spacing only) are hash duplicates.
\<close>

lemma scenario_three_listings:
  "stats (process_all L clock (initial_state empty_index)
      [ai_summit ''eb_1'', ai_summit ''mu_7'', ai_summit_allevents])
     = \<lparr>new = 1, dup_exact = 0, dup_hash = 2, dup_fuzzy = 0, errors = 0\<rparr>
   \<and> length (new_rows (process_all L clock (initial_state empty_index)
      [ai_summit ''eb_1'', ai_summit ''mu_7'', ai_summit_allevents])) = 1"
proof -
  define st1 where "st1 = process_event L (clock 0) (initial_state empty_index) (ai_summit ''eb_1'')"
  define st2 where "st2 = process_event L (clock 1) st1 (ai_summit ''mu_7'')"
  have same: "dict_get (ai_summit ''mu_7'') ''title'' (PStr []) = dict_get (ai_summit ''eb_1'') ''title'' (PStr [])"
    "dict_get (ai_summit ''mu_7'') ''start_date'' (PStr [])
       = dict_get (ai_summit ''eb_1'') ''start_date'' (PStr [])"
    "dict_get (ai_summit ''mu_7'') ''city'' (PStr []) = dict_get (ai_summit ''eb_1'') ''city'' (PStr [])"
    by (simp_all add: ai_summit_fields)
  note s = second_listing [OF ai_summit_text_fields same]
  have u1: "is_duplicate L (ai_summit ''eb_1'') (source_ids (initial_state empty_index))
           (content_hashes (initial_state empty_index)) (events_list (initial_state empty_index)) 85
           = Inr (False, [])"
    by (rule s(1))
  have stats1: "stats st1 = \<lparr>new = 1, dup_exact = 0, dup_hash = 0, dup_fuzzy = 0, errors = 0\<rparr>"
    and rows1: "length (new_rows st1) = 1"
    and ids1: "source_ids st1 = {py_str (dict_get (ai_summit ''eb_1'') ''source_id'' (PStr []))}"
    unfolding st1_def by (rule s(2) s(3) s(4))+
  have h1: "compute_content_hash (dict_get (ai_summit ''eb_1'') ''title'' (PStr []))
          (dict_get (ai_summit ''eb_1'') ''start_date'' (PStr []))
          (dict_get (ai_summit ''eb_1'') ''city'' (PStr []))
       = Inr (sha256_hexdigest (encode_utf8 ''ai summit 2025|2025-06-01|pune''))"
    by (simp add: ai_summit_fields ai_summit_hash)
  have hashes1: "content_hashes st1 = {sha256_hexdigest (encode_utf8 ''ai summit 2025|2025-06-01|pune'')}"
    using process_event_unique_index(2) [OF u1 h1, of "clock 0"]
    by (simp add: st1_def initial_empty)
  have d2: "is_duplicate L (ai_summit ''mu_7'') (source_ids st1) (content_hashes st1)
              (events_list st1) 85 = Inr (True, ''content_hash'')"
    unfolding st1_def by (rule s(5)) (simp add: ai_summit_lookup_ids ai_summit_fields)
  have st2: "st2 = st1\<lparr>stats := (stats st1)\<lparr>dup_hash := dup_hash (stats st1) + 1\<rparr>\<rparr>"
    by (simp add: st2_def process_event_duplicate [OF d2] py_in_reasons)
  have id3: "lookup_id ai_summit_allevents = ''ae_3''"
    unfolding lookup_id_def ai_summit_allevents_def dict_get_def by code_simp
  have h3: "compute_content_hash (dict_get ai_summit_allevents ''title'' (PStr []))
          (dict_get ai_summit_allevents ''start_date'' (PStr []))
          (dict_get ai_summit_allevents ''city'' (PStr []))
       = Inr (sha256_hexdigest (encode_utf8 ''ai summit 2025|2025-06-01|pune''))"
    by (simp add: ai_summit_allevents_def dict_get_def compute_content_hash_text
        ai_summit_normal_forms)
  have d3: "is_duplicate L ai_summit_allevents (source_ids st2) (content_hashes st2)
              (events_list st2) 85 = Inr (True, ''content_hash'')"
    by (rule is_duplicate_known_hash [OF _ h3])
      (simp_all add: st2 ids1 id3 ai_summit_fields hashes1)
  have st3: "process_event L (clock 2) st2 ai_summit_allevents
               = st2\<lparr>stats := (stats st2)\<lparr>dup_hash := dup_hash (stats st2) + 1\<rparr>\<rparr>"
    by (simp add: process_event_duplicate [OF d3] py_in_reasons)
  have run: "process_all L clock (initial_state empty_index)
      [ai_summit ''eb_1'', ai_summit ''mu_7'', ai_summit_allevents]
      = process_event L (clock 2) st2 ai_summit_allevents"
    by (simp add: st1_def st2_def numeral_2_eq_2)
  have "process_all L clock (initial_state empty_index)
      [ai_summit ''eb_1'', ai_summit ''mu_7'', ai_summit_allevents]
      = st2\<lparr>stats := (stats st2)\<lparr>dup_hash := dup_hash (stats st2) + 1\<rparr>\<rparr>"
    using run st3 by simp
  then show ?thesis
    using stats1 rows1 by (simp add: st2)
qed

text \<open>
  The scenario of the unknown date: a candidate with an empty start date is not a fuzzy
  duplicate of a stored event with the same title and city and an empty date.
\<close>

lemma scenario_unknown_date:
  "is_duplicate L [''title'' \<mapsto> PStr ''AI Summit 2025'', ''start_date'' \<mapsto> PStr [], ''city'' \<mapsto> PStr ''Pune'']
     {} {} [[''title'' \<mapsto> PStr ''AI Summit 2025'', ''start_date'' \<mapsto> PStr [], ''city'' \<mapsto> PStr ''Pune'']] T
     = Inr (False, [])"
  by (simp add: is_duplicate_def dict_get_def compute_content_hash_def py_strip_def
      normalize_date_def fuzzy_scan.simps(2))

section \<open>Malformed candidates\<close>






section \<open>The fold of the source id\<close>

lemma str_nat_not_empty: "str_nat n \<noteq> []"
  by (subst str_nat.simps) simp

lemma truthy_py_str: "truthy v \<Longrightarrow> py_str v \<noteq> []"
  by (cases v) (auto simp: str_int_def str_nat_not_empty)

lemma load_row_source_ids:
  "[] \<notin> source_ids acc \<Longrightarrow> [] \<notin> source_ids (load_row acc row)"
  by (auto simp: load_row_def dest: truthy_py_str)

lemma foldl_load_row_source_ids:
  "[] \<notin> source_ids acc \<Longrightarrow> [] \<notin> source_ids (foldl load_row acc records)"
  by (induction records arbitrary: acc) (simp_all add: load_row_source_ids)

text \<open>The loader keeps the empty string out of the source-id set.\<close>

lemma load_existing_events_no_empty_id:
  "[] \<notin> source_ids (initial_state (load_existing_events records))"
  using foldl_load_row_source_ids
    [of "\<lparr>source_ids = {}, content_hashes = {}, events_list = [], total = 0\<rparr>" records]
  by (simp add: load_existing_events_def initial_state_def)

lemma process_event_adds_source_id:
  "is_duplicate L event (source_ids st) (content_hashes st) (events_list st) 85 = Inr (False, r) \<Longrightarrow>
   source_ids (process_event L now st event)
     = insert (py_str (dict_get event ''source_id'' (PStr []))) (source_ids st)"
  using process_event_unique [of L event st r now] by auto

text \<open>
  Claim C9 against the code: the fold adds \<open>str(event.get("source_id", ""))\<close> to the
  source-id set whether or not it is empty. From the index of an empty sheet, which has
  no empty string in its source-id set, accepting a candidate without a source id leaves
  the set \<open>{""}\<close>.
\<close>

theorem fold_adds_empty_source_id:
  "dict_get (jazz ''jazz night'' ''Mumbai'') ''source_id'' (PStr []) = PStr []
   \<and> [] \<notin> source_ids (initial_state (load_existing_events []))
   \<and> is_duplicate ref_lib (jazz ''jazz night'' ''Mumbai'')
        (source_ids (initial_state (load_existing_events [])))
        (content_hashes (initial_state (load_existing_events [])))
        (events_list (initial_state (load_existing_events []))) 85
       = Inr (False, [])
   \<and> source_ids (process_event ref_lib (fixed_clock 0) (initial_state (load_existing_events []))
        (jazz ''jazz night'' ''Mumbai''))
       = {[]}"
proof -
  have u: "is_duplicate ref_lib (jazz ''jazz night'' ''Mumbai'')
        (source_ids (initial_state empty_index)) (content_hashes (initial_state empty_index))
        (events_list (initial_state empty_index)) 85 = Inr (False, [])"
    by (simp add: initial_empty is_duplicate_empty_index [OF jazz_text_fields])
  show ?thesis
    using u process_event_adds_source_id [OF u, of "fixed_clock 0"]
    by (simp add: load_existing_events_Nil initial_empty jazz_fields)
qed

end
